theory Spec2Isabelle
  imports Complex_Main "HOL-Library.Word"
begin

unbundle bit_operations_syntax

section \<open>The object model of asteroids.c\<close>

text \<open>
  The C \<^verbatim>\<open>float\<close> fields are modelled by the reals: every statement below about
  positions and velocities is a statement about the arithmetic the code writes
  down, not about its rounding. The fixed-width integer fields are words.
\<close>

type_synonym xSpriteHandle = nat

record point =
  x :: real
  y :: real

text \<open>
  \<^verbatim>\<open>struct object_s\<close>. The \<^verbatim>\<open>next\<close> pointer is the tail of the HOL list that holds
  the object; the field \<^verbatim>\<open>size\<close> is called \<open>osize\<close> here.
\<close>

record object =
  handle :: xSpriteHandle
  pos :: point
  vel :: point
  accel :: real
  angle :: "16 word"
  a_vel :: "8 word"
  osize :: "8 word"
  life :: "16 word"

datatype task = InputTask | BulletTask | UpdateTask

text \<open>
  Every call into the graphics module and into the kernel is recorded, in the
  order the code makes it. \<open>SpriteCreate\<close> and \<open>GroupCreate\<close> carry the handle
  the call returned as their last argument.
\<close>

datatype call =
    SpriteCreate string real real int nat nat nat xSpriteHandle
  | SpriteDelete xSpriteHandle
  | SpriteSetPosition xSpriteHandle nat nat
  | SpriteSetRotation xSpriteHandle nat
  | GroupCreate xSpriteHandle
  | GroupAddSprite xSpriteHandle xSpriteHandle
  | GroupDelete xSpriteHandle
  | TaskSuspend task
  | TaskResume task
  | TaskDelay nat
  | SemaphoreTake
  | SemaphoreGive

text \<open>
  The globals of asteroids.c, together with what the code reads from its
  environment: the values \<^verbatim>\<open>rand()\<close> is going to return (\<open>rand_seq\<close>, read at
  \<open>rand_idx\<close>), the next handle the graphics module hands out, and the record of
  the calls made so far.
\<close>

record game =
  ship :: object
  bullets :: "object list"
  asteroids :: "object list"
  astGroup :: xSpriteHandle
  background :: xSpriteHandle
  rand_seq :: "nat \<Rightarrow> nat"
  rand_idx :: nat
  next_handle :: xSpriteHandle
  calls :: "call list"

definition SCREEN_W :: int where "SCREEN_W = 800"
definition SCREEN_H :: int where "SCREEN_H = 600"
definition INITIAL_ASTEROIDS :: nat where "INITIAL_ASTEROIDS = 5"
definition DEAD_ZONE_OVER_2 :: int where "DEAD_ZONE_OVER_2 = 120"
definition FRAME_DELAY_MS :: nat where "FRAME_DELAY_MS = 10"
definition BULLET_LIFE_MS :: nat where "BULLET_LIFE_MS = 1000"
definition SHIP_SIZE :: nat where "SHIP_SIZE = 24"
definition BULLET_SIZE :: nat where "BULLET_SIZE = 6"
definition AST_SIZE_3 :: nat where "AST_SIZE_3 = 100"
definition AST_SIZE_2 :: nat where "AST_SIZE_2 = 40"
definition AST_SIZE_1 :: nat where "AST_SIZE_1 = 15"
definition SHIP_MAX_VEL :: real where "SHIP_MAX_VEL = 8"
definition SHIP_ACCEL :: real where "SHIP_ACCEL = 1 / 10"
definition SHIP_AVEL :: real where "SHIP_AVEL = 6"
definition AST_MAX_VEL_3 :: real where "AST_MAX_VEL_3 = 2"
definition AST_MAX_VEL_2 :: real where "AST_MAX_VEL_2 = 3"
definition AST_MAX_VEL_1 :: real where "AST_MAX_VEL_1 = 4"
definition AST_MAX_AVEL_3 :: real where "AST_MAX_AVEL_3 = 3"
definition AST_MAX_AVEL_2 :: real where "AST_MAX_AVEL_2 = 6"
definition AST_MAX_AVEL_1 :: real where "AST_MAX_AVEL_1 = 9"

definition astImages :: "string list" where
  "astImages = [''a1.png'', ''a2.png'', ''a3.png'']"

subsection \<open>Conversions the C code performs\<close>

text \<open>A floating value converted to an integer type is truncated towards zero.\<close>

definition trunc_int :: "real \<Rightarrow> int" where
  "trunc_int r = (if 0 \<le> r then \<lfloor>r\<rfloor> else \<lceil>r\<rceil>)"

definition to_int8 :: "int \<Rightarrow> int" where
  "to_int8 i = signed_take_bit 7 i"

definition to_uint16 :: "real \<Rightarrow> nat" where
  "to_uint16 r = nat (trunc_int r mod 65536)"

subsection \<open>The environment: \<^verbatim>\<open>rand()\<close>, the graphics module, the kernel\<close>

definition rand :: "game \<Rightarrow> int \<times> game" where
  "rand st = (int (rand_seq st (rand_idx st)), st\<lparr>rand_idx := rand_idx st + 1\<rparr>)"

definition record_calls :: "call list \<Rightarrow> game \<Rightarrow> game" where
  "record_calls cs st = st\<lparr>calls := calls st @ cs\<rparr>"

definition xSpriteCreate ::
  "string \<Rightarrow> real \<Rightarrow> real \<Rightarrow> int \<Rightarrow> nat \<Rightarrow> nat \<Rightarrow> nat \<Rightarrow> game \<Rightarrow> xSpriteHandle \<times> game" where
  "xSpriteCreate img px py rot w h depth st =
     (next_handle st,
      st\<lparr>next_handle := next_handle st + 1,
         calls := calls st @ [SpriteCreate img px py rot w h depth (next_handle st)]\<rparr>)"

definition xGroupCreate :: "game \<Rightarrow> xSpriteHandle \<times> game" where
  "xGroupCreate st =
     (next_handle st,
      st\<lparr>next_handle := next_handle st + 1,
         calls := calls st @ [GroupCreate (next_handle st)]\<rparr>)"

subsection \<open>Constructors\<close>

definition sizeToPix :: "int \<Rightarrow> nat" where
  "sizeToPix size_arg =
     (if size_arg = 3 then AST_SIZE_3
      else if size_arg = 2 then AST_SIZE_2
      else if size_arg = 1 then AST_SIZE_1
      else AST_SIZE_3 * 4)"

text \<open>
  \<^verbatim>\<open>createAsteroid\<close> ignores its parameter \<^verbatim>\<open>nxt\<close> and links the new object in
  front of the global list; it returns the new head, which the callers store
  back into \<^verbatim>\<open>asteroids\<close>. Its \<^verbatim>\<open>size\<close> parameter is an \<^verbatim>\<open>int8_t\<close>, stored into
  the \<^verbatim>\<open>uint8_t\<close> field. The fields \<^verbatim>\<open>accel\<close> and \<^verbatim>\<open>life\<close> are left as allocated
  by the source and never read for an asteroid; they are 0 here.
\<close>

definition createAsteroid ::
  "real \<Rightarrow> real \<Rightarrow> real \<Rightarrow> real \<Rightarrow> 16 word \<Rightarrow> 8 word \<Rightarrow> 8 word \<Rightarrow> object list \<Rightarrow> game
     \<Rightarrow> object list \<times> game" where
  "createAsteroid px py velx vely ang avel size_arg nxt st =
     (let (r, st1) = rand st;
          (h, st2) = xSpriteCreate (astImages ! nat (r mod 3)) px py (sint ang)
                       (sizeToPix (sint size_arg)) (sizeToPix (sint size_arg)) 1 st1;
          newAsteroid = \<lparr>handle = h, pos = \<lparr>x = px, y = py\<rparr>, vel = \<lparr>x = velx, y = vely\<rparr>,
                         accel = 0, angle = ang, a_vel = avel, osize = size_arg, life = 0\<rparr>;
          st3 = record_calls [GroupAddSprite (astGroup st2) h] st2
      in (newAsteroid # asteroids st3, st3))"

text \<open>The fields \<^verbatim>\<open>accel\<close>, \<^verbatim>\<open>angle\<close> and \<^verbatim>\<open>a_vel\<close> of a bullet are never written or read.\<close>

definition createBullet ::
  "real \<Rightarrow> real \<Rightarrow> real \<Rightarrow> real \<Rightarrow> object list \<Rightarrow> game \<Rightarrow> object list \<times> game" where
  "createBullet px py velx vely nxt st =
     (let (h, st1) = xSpriteCreate ''bullet.png'' px py 0 BULLET_SIZE BULLET_SIZE 1 st;
          newBullet = \<lparr>handle = h, pos = \<lparr>x = px, y = py\<rparr>, vel = \<lparr>x = velx, y = vely\<rparr>,
                       accel = 0, angle = 0, a_vel = 0, osize = word_of_nat BULLET_SIZE,
                       life = 0\<rparr>
      in (newBullet # nxt, st1))"

subsection \<open>\<^verbatim>\<open>spawnAsteroid\<close>\<close>

text \<open>
  \<^verbatim>\<open>vel\<close> and \<^verbatim>\<open>accel\<close> are \<^verbatim>\<open>int\<close> variables; the \<^verbatim>\<open>switch\<close> is on \<^verbatim>\<open>size - 1\<close>,
  computed in \<^verbatim>\<open>int\<close>.
\<close>

definition spawn_limits :: "int \<Rightarrow> int \<times> int" where
  "spawn_limits new_size =
     (if new_size = 2 then (trunc_int AST_MAX_VEL_2, trunc_int AST_MAX_AVEL_2)
      else if new_size = 1 then (trunc_int AST_MAX_VEL_1, trunc_int AST_MAX_AVEL_1)
      else (trunc_int AST_MAX_VEL_3, trunc_int AST_MAX_AVEL_3))"

text \<open>
  One iteration of the \<^verbatim>\<open>for\<close> loop. C leaves the order in which the arguments
  of a call are evaluated open; the four calls of \<^verbatim>\<open>rand()\<close> are taken from left
  to right. No statement below depends on that order.
\<close>

definition spawn_one :: "point \<Rightarrow> 8 word \<Rightarrow> int \<Rightarrow> int \<Rightarrow> game \<Rightarrow> game" where
  "spawn_one p size_arg v a st =
     (let (r1, st1) = rand st;
          (r2, st2) = rand st1;
          (r3, st3) = rand st2;
          (r4, st4) = rand st3;
          (l, st5) = createAsteroid (x p) (y p)
                       (real_of_int (r1 mod to_int8 (v * 10)) / 5 - real_of_int v)
                       (real_of_int (r2 mod to_int8 (v * 10)) / 5 - real_of_int v)
                       (word_of_int (r3 mod 360))
                       (word_of_int (trunc_int
                          (real_of_int (r4 mod to_int8 (a * 10)) / 5 - real_of_int a)))
                       (size_arg - 1)
                       (asteroids st4) st4
      in st5\<lparr>asteroids := l\<rparr>)"

definition spawnAsteroid :: "point \<Rightarrow> 8 word \<Rightarrow> game \<Rightarrow> game" where
  "spawnAsteroid p size_arg st =
     (if 1 < unat size_arg then
        (let (v, a) = spawn_limits (int (unat size_arg) - 1)
         in spawn_one p size_arg v a (spawn_one p size_arg v a (spawn_one p size_arg v a st)))
      else st)"

subsection \<open>\<^verbatim>\<open>inputTask\<close>\<close>

text \<open>
  The buttons are active low on port B. \<^verbatim>\<open>_BV(n)\<close> is \<^verbatim>\<open>1 << n\<close>, and the pin
  numbers are those of \<^verbatim>\<open>avr/io.h\<close>. Each macro reads \<^verbatim>\<open>PINB\<close>; one pass of the
  loop body is taken on a port value \<open>pinb\<close> that stays the same over the pass.
\<close>

definition PB7 :: nat where "PB7 = 7"
definition PB6 :: nat where "PB6 = 6"
definition PB1 :: nat where "PB1 = 1"
definition PB0 :: nat where "PB0 = 0"

definition LEFT_BUTTON :: "8 word \<Rightarrow> bool" where
  "LEFT_BUTTON pinb = (pinb AND push_bit PB7 1 = 0)"
definition RIGHT_BUTTON :: "8 word \<Rightarrow> bool" where
  "RIGHT_BUTTON pinb = (pinb AND push_bit PB6 1 = 0)"
definition ACCEL_BUTTON :: "8 word \<Rightarrow> bool" where
  "ACCEL_BUTTON pinb = (pinb AND push_bit PB1 1 = 0)"
definition SHOOT_BUTTON :: "8 word \<Rightarrow> bool" where
  "SHOOT_BUTTON pinb = (pinb AND push_bit PB0 1 = 0)"

definition inputTask_pass :: "8 word \<Rightarrow> game \<Rightarrow> game" where
  "inputTask_pass pinb st =
     (let s1 = (if LEFT_BUTTON pinb then (ship st)\<lparr>a_vel := word_of_int (trunc_int SHIP_AVEL)\<rparr>
                else if RIGHT_BUTTON pinb
                  then (ship st)\<lparr>a_vel := word_of_int (trunc_int (- SHIP_AVEL))\<rparr>
                else (ship st)\<lparr>a_vel := 0\<rparr>);
          s2 = (if ACCEL_BUTTON pinb then s1\<lparr>accel := SHIP_ACCEL\<rparr> else s1\<lparr>accel := 0\<rparr>)
      in st\<lparr>ship := s2\<rparr>)"

subsection \<open>\<^verbatim>\<open>bulletTask\<close>\<close>

text \<open>
  \<open>tick_ms\<close> stands for \<^verbatim>\<open>portTICK_RATE_MS\<close> of the kernel configuration. One pass
  of the loop body ends in exactly one \<^verbatim>\<open>vTaskDelay\<close>; the pass returns the number
  of ticks it asked for.
\<close>

definition heading_rad :: "object \<Rightarrow> real" where
  "heading_rad s = real_of_int (sint (angle s)) * pi / 180"



subsection \<open>\<^verbatim>\<open>updateTask\<close>\<close>

definition spin_ship :: "object \<Rightarrow> object" where
  "spin_ship s =
     (let a = angle s + scast (a_vel s)
      in s\<lparr>angle := (if 360 \<le> sint a then a - 360 else if sint a < 0 then a + 360 else a)\<rparr>)"

definition thrust_ship :: "object \<Rightarrow> object" where
  "thrust_ship s =
     (let vx = x (vel s) + accel s * - sin (heading_rad s);
          vy = y (vel s) + accel s * - cos (heading_rad s);
          v = vx * vx + vy * vy
      in if SHIP_MAX_VEL < v
         then s\<lparr>vel := \<lparr>x = vx * (SHIP_MAX_VEL / v), y = vy * (SHIP_MAX_VEL / v)\<rparr>\<rparr>
         else s\<lparr>vel := \<lparr>x = vx, y = vy\<rparr>\<rparr>)"

text \<open>
  The position update and the two \<^verbatim>\<open>if\<close>/\<^verbatim>\<open>else if\<close> adjustments, which the source
  writes out once for the ship, once for a bullet and once for an asteroid.
\<close>

definition wrap_coord :: "int \<Rightarrow> real \<Rightarrow> real" where
  "wrap_coord extent c =
     (if c < 0 then c + real_of_int extent
      else if real_of_int extent < c then c - real_of_int extent
      else c)"

definition move_object :: "object \<Rightarrow> object" where
  "move_object ob =
     ob\<lparr>pos := \<lparr>x = wrap_coord SCREEN_W (x (pos ob) + x (vel ob)),
                 y = wrap_coord SCREEN_H (y (pos ob) + y (vel ob))\<rparr>\<rparr>"

text \<open>
  The bullet loop: the objects that stay linked, and the calls made for those
  that are unlinked and freed.
\<close>

fun move_bullets :: "object list \<Rightarrow> object list \<times> call list" where
  "move_bullets [] = ([], [])"
| "move_bullets (b # bs) =
     (let b1 = b\<lparr>life := life b + word_of_nat FRAME_DELAY_MS\<rparr>;
          (kept, cs) = move_bullets bs
      in if BULLET_LIFE_MS \<le> unat (life b1)
         then (kept, [SemaphoreTake, SpriteDelete (handle b1), SemaphoreGive] @ cs)
         else (move_object b1 # kept, cs))"

definition updateTask_pass :: "nat \<Rightarrow> game \<Rightarrow> game" where
  "updateTask_pass tick_ms st =
     (let s = move_object (thrust_ship (spin_ship (ship st)));
          (kept, cs) = move_bullets (bullets st)
      in st\<lparr>ship := s, bullets := kept, asteroids := map move_object (asteroids st),
            calls := calls st @ cs @ [TaskDelay (FRAME_DELAY_MS div tick_ms)]\<rparr>)"

subsection \<open>\<^verbatim>\<open>reset\<close> and \<^verbatim>\<open>init\<close>\<close>

definition reset :: "game \<Rightarrow> game" where
  "reset st =
     st\<lparr>asteroids := [], bullets := [],
        calls := calls st
          @ map (\<lambda>ob. SpriteDelete (handle ob)) (asteroids st)
          @ [GroupDelete (astGroup st)]
          @ map (\<lambda>ob. SpriteDelete (handle ob)) (bullets st)
          @ [SpriteDelete (handle (ship st)), SpriteDelete (background st)]\<rparr>"

text \<open>The two calls of \<^verbatim>\<open>rand()\<close> are taken from left to right.\<close>

definition getRandStartPosVal :: "int \<Rightarrow> game \<Rightarrow> int \<times> game" where
  "getRandStartPosVal dimOver2 st =
     (let (r1, st1) = rand st;
          (r2, st2) = rand st1
      in (r1 mod (dimOver2 - DEAD_ZONE_OVER_2) + (r2 mod 2) * (dimOver2 + DEAD_ZONE_OVER_2),
          st2))"

text \<open>One iteration of the \<^verbatim>\<open>for\<close> loop of \<^verbatim>\<open>init\<close>, arguments from left to right.\<close>

definition init_one :: "game \<Rightarrow> game" where
  "init_one st =
     (let (sx, st1) = getRandStartPosVal (drop_bit 1 SCREEN_W) st;
          (sy, st2) = getRandStartPosVal (drop_bit 1 SCREEN_H) st1;
          (r1, st3) = rand st2;
          (r2, st4) = rand st3;
          (r3, st5) = rand st4;
          (r4, st6) = rand st5;
          (l, st7) = createAsteroid (real_of_int sx) (real_of_int sy)
                       (real_of_int (r1 mod to_int8 (trunc_int (AST_MAX_VEL_3 * 10))) / 5
                          - AST_MAX_VEL_3)
                       (real_of_int (r2 mod to_int8 (trunc_int (AST_MAX_VEL_3 * 10))) / 5
                          - AST_MAX_VEL_3)
                       (word_of_int (r3 mod 360))
                       (word_of_int (trunc_int
                          (real_of_int (r4 mod to_int8 (trunc_int (AST_MAX_AVEL_3 * 10))) / 5
                             - AST_MAX_AVEL_3)))
                       3 (asteroids st6) st6
      in st7\<lparr>asteroids := l\<rparr>)"

text \<open>
  \<^verbatim>\<open>srand(TCNT0)\<close> restarts the generator from the timer; \<open>seq\<close> is the sequence
  of values \<^verbatim>\<open>rand()\<close> returns from then on. The store of \<^verbatim>\<open>ERROR_HANDLE\<close> into
  \<^verbatim>\<open>astGroup\<close> is overwritten before it is read and is left out.
\<close>

definition init :: "(nat \<Rightarrow> nat) \<Rightarrow> game \<Rightarrow> game" where
  "init seq st =
     (let st0 = st\<lparr>bullets := [], asteroids := []\<rparr>;
          (bg, st1) = xSpriteCreate ''stars.png'' (real_of_int (drop_bit 1 SCREEN_W))
                        (real_of_int (drop_bit 1 SCREEN_H)) 0 (nat SCREEN_W) (nat SCREEN_H) 0 st0;
          st2 = st1\<lparr>background := bg, rand_seq := seq, rand_idx := 0\<rparr>;
          (g, st3) = xGroupCreate st2;
          st4 = (init_one ^^ INITIAL_ASTEROIDS) (st3\<lparr>astGroup := g\<rparr>);
          (h, st5) = xSpriteCreate ''ship.png'' (real_of_int (drop_bit 1 SCREEN_W))
                       (real_of_int (drop_bit 1 SCREEN_H)) 0 SHIP_SIZE SHIP_SIZE 1 st4
      in st5\<lparr>ship := (ship st5)\<lparr>handle := h,
                 pos := \<lparr>x = real_of_int (drop_bit 1 SCREEN_W),
                         y = real_of_int (drop_bit 1 SCREEN_H)\<rparr>,
                 vel := \<lparr>x = 0, y = 0\<rparr>, accel := 0, angle := 0, a_vel := 0\<rparr>\<rparr>)"

subsection \<open>\<^verbatim>\<open>drawTask\<close>\<close>

text \<open>
  \<^verbatim>\<open>uCollide(sprite, group, &hit, 1)\<close> belongs to the graphics module. Its answer is
  taken as a function of the calls made so far, of the sprite and of the group:
  \<open>None\<close> when it returns 0, \<open>Some hit\<close> when it returns a positive count.
\<close>

type_synonym uCollide = "call list \<Rightarrow> xSpriteHandle \<Rightarrow> xSpriteHandle \<Rightarrow> xSpriteHandle option"

text \<open>
  The scan of the asteroid list for the handle \<open>hit\<close>: the object found and the
  list without it, or \<open>None\<close> when the scan reaches the end of the list.
\<close>

fun unlink_hit :: "xSpriteHandle \<Rightarrow> object list \<Rightarrow> (object \<times> object list) option" where
  "unlink_hit hit [] = None"
| "unlink_hit hit (a # as) =
     (if handle a = hit then Some (a, as)
      else (case unlink_hit hit as of
              None \<Rightarrow> None
            | Some (found, rest) \<Rightarrow> Some (found, a # rest)))"

definition asteroid_hit :: "xSpriteHandle \<Rightarrow> game \<Rightarrow> game" where
  "asteroid_hit hit st =
     (case unlink_hit hit (asteroids st) of
        None \<Rightarrow> st
      | Some (found, rest) \<Rightarrow>
          spawnAsteroid (pos found) (osize found)
            ((record_calls [SpriteDelete (handle found)] st)\<lparr>asteroids := rest\<rparr>))"

text \<open>The bullet loop: the bullets that stay linked, and the state after the loop.\<close>

fun draw_bullets :: "uCollide \<Rightarrow> object list \<Rightarrow> game \<Rightarrow> object list \<times> game" where
  "draw_bullets coll [] st = ([], st)"
| "draw_bullets coll (b # bs) st =
     (let st1 = record_calls
                  [SpriteSetPosition (handle b) (to_uint16 (x (pos b))) (to_uint16 (y (pos b)))] st
      in case coll (calls st1) (handle b) (astGroup st1) of
           Some hit \<Rightarrow>
             draw_bullets coll bs (asteroid_hit hit (record_calls [SpriteDelete (handle b)] st1))
         | None \<Rightarrow>
             (let (kept, st2) = draw_bullets coll bs st1 in (b # kept, st2)))"

definition draw_asteroids :: "game \<Rightarrow> game" where
  "draw_asteroids st =
     record_calls
       (concat (map (\<lambda>ob. [SpriteSetPosition (handle ob) (to_uint16 (x (pos ob)))
                               (to_uint16 (y (pos ob))),
                             SpriteSetRotation (handle ob) (unat (angle ob))])
                    (asteroids st)))
       st"

text \<open>
  The end-of-pass test and the restart of the game. \<open>seq\<close> is the sequence that
  \<^verbatim>\<open>rand()\<close> returns after the \<^verbatim>\<open>srand\<close> of \<^verbatim>\<open>init\<close>.
\<close>

definition game_over :: "nat \<Rightarrow> uCollide \<Rightarrow> (nat \<Rightarrow> nat) \<Rightarrow> game \<Rightarrow> game" where
  "game_over tick_ms coll seq st =
     (if coll (calls st) (handle (ship st)) (astGroup st) \<noteq> None \<or> asteroids st = [] then
        (let st1 = record_calls
                     [TaskSuspend UpdateTask, TaskSuspend BulletTask, TaskSuspend InputTask] st;
             (h, st2) =
               (if asteroids st1 = []
                then xSpriteCreate ''win.png'' (real_of_int (drop_bit 1 SCREEN_W))
                       (real_of_int (drop_bit 1 SCREEN_H)) 20
                       (nat (drop_bit 1 SCREEN_W)) (nat (drop_bit 1 SCREEN_H)) 100 st1
                else xSpriteCreate ''lose.png'' (real_of_int (drop_bit 1 SCREEN_W))
                       (real_of_int (drop_bit 1 SCREEN_H)) 0
                       (nat (drop_bit 1 SCREEN_W)) (nat (drop_bit 1 SCREEN_H)) 100 st1);
             st3 = record_calls [TaskDelay (3000 div tick_ms), SpriteDelete h] st2;
             st4 = init seq (reset st3)
         in record_calls
              [TaskResume UpdateTask, TaskResume BulletTask, TaskResume InputTask] st4)
      else st)"

definition drawTask_pass :: "nat \<Rightarrow> uCollide \<Rightarrow> (nat \<Rightarrow> nat) \<Rightarrow> game \<Rightarrow> game" where
  "drawTask_pass tick_ms coll seq st =
     (let st1 = record_calls
                  [SemaphoreTake,
                   SpriteSetRotation (handle (ship st)) (unat (angle (ship st))),
                   SpriteSetPosition (handle (ship st)) (to_uint16 (x (pos (ship st))))
                     (to_uint16 (y (pos (ship st))))] st;
          (kept, st2) = draw_bullets coll (bullets st1) st1;
          st3 = draw_asteroids (st2\<lparr>bullets := kept\<rparr>);
          st4 = game_over tick_ms coll seq st3
      in record_calls [SemaphoreGive, TaskDelay (FRAME_DELAY_MS div tick_ms)] st4)"

subsection \<open>Concrete game states\<close>

text \<open>
  A game with one asteroid of size 3 in the middle of the screen and one bullet
  in flight, a graphics module that reports this bullet as colliding with this
  asteroid, and a generator that returns 0 at every call.
\<close>

definition demo_ship :: object where
  "demo_ship = \<lparr>handle = 1, pos = \<lparr>x = 400, y = 300\<rparr>, vel = \<lparr>x = 0, y = 0\<rparr>,
      accel = 0, angle = 0, a_vel = 0, osize = 0, life = 0\<rparr>"

definition demo_asteroid :: object where
  "demo_asteroid = \<lparr>handle = 3, pos = \<lparr>x = 400, y = 300\<rparr>, vel = \<lparr>x = 1, y = 0\<rparr>,
      accel = 0, angle = 0, a_vel = 0, osize = 3, life = 0\<rparr>"

definition demo_bullet :: object where
  "demo_bullet = \<lparr>handle = 4, pos = \<lparr>x = 400, y = 350\<rparr>, vel = \<lparr>x = 0, y = - 6\<rparr>,
      accel = 0, angle = 0, a_vel = 0, osize = 6, life = 80\<rparr>"

definition demo_seq :: "nat \<Rightarrow> nat" where
  "demo_seq i = 0"

definition demo_game :: game where
  "demo_game = \<lparr>ship = demo_ship, bullets = [demo_bullet], asteroids = [demo_asteroid],
      astGroup = 2, background = 0, rand_seq = demo_seq, rand_idx = 0, next_handle = 5,
      calls = []\<rparr>"

definition demo_coll :: uCollide where
  "demo_coll cs sprite grp = (if sprite = 4 then Some 3 else None)"

definition edge_asteroid :: object where
  "edge_asteroid = \<lparr>handle = 3, pos = \<lparr>x = 799, y = 100\<rparr>, vel = \<lparr>x = 1, y = 0\<rparr>,
      accel = 0, angle = 0, a_vel = 0, osize = 3, life = 0\<rparr>"

definition edge_game :: game where
  "edge_game = demo_game\<lparr>asteroids := [edge_asteroid]\<rparr>"

text \<open>
  A list in which two asteroids share the handle 3, behind one that has another
  handle.
\<close>

definition twin_game :: game where
  "twin_game = demo_game\<lparr>asteroids :=
      [edge_asteroid\<lparr>handle := 8\<rparr>, demo_asteroid, edge_asteroid]\<rparr>"

definition fast_ship :: object where
  "fast_ship = demo_ship\<lparr>vel := \<lparr>x = 3, y = 4\<rparr>\<rparr>"

text \<open>
  A graphics module that reports the ship as colliding with the asteroid, a port
  on which only the fire button is held down, and a delay of 0 ms (used both
  for the wait for the mutex and for the lateness of the scheduler).
\<close>

definition demo_ship_coll :: uCollide where
  "demo_ship_coll cs sprite grp = (if sprite = 1 then Some 3 else None)"



subsection \<open>Predicates used in the statements\<close>

text \<open>An object lies on the screen, borders included.\<close>

definition in_screen :: "object \<Rightarrow> bool" where
  "in_screen ob =
     (0 \<le> x (pos ob) \<and> x (pos ob) \<le> real_of_int SCREEN_W
      \<and> 0 \<le> y (pos ob) \<and> y (pos ob) \<le> real_of_int SCREEN_H)"

text \<open>An object moves by less than the screen dimension per tick, on each axis.\<close>

definition slow :: "object \<Rightarrow> bool" where
  "slow ob = (\<bar>x (vel ob)\<bar> < real_of_int SCREEN_W \<and> \<bar>y (vel ob)\<bar> < real_of_int SCREEN_H)"

definition all_in_screen :: "game \<Rightarrow> bool" where
  "all_in_screen st =
     (in_screen (ship st) \<and> list_all in_screen (bullets st) \<and> list_all in_screen (asteroids st))"


section \<open>Asteroid decomposition\<close>

lemma to_int8_vals: "to_int8 20 = 20" "to_int8 30 = 30" "to_int8 40 = 40" "to_int8 60 = 60" "to_int8 90 = 90"
  by (simp_all add: to_int8_def)

lemma createAsteroid_result:
  "createAsteroid px py vx vy ang av sz nxt st =
     (\<lparr>handle = next_handle st, pos = \<lparr>x = px, y = py\<rparr>, vel = \<lparr>x = vx, y = vy\<rparr>,
        accel = 0, angle = ang, a_vel = av, osize = sz, life = 0\<rparr> # asteroids st,
      st\<lparr>rand_idx := rand_idx st + 1, next_handle := next_handle st + 1,
         calls := calls st @
           [SpriteCreate (astImages ! nat (int (rand_seq st (rand_idx st)) mod 3)) px py (sint ang)
              (sizeToPix (sint sz)) (sizeToPix (sint sz)) 1 (next_handle st),
            GroupAddSprite (astGroup st) (next_handle st)]\<rparr>)"
  by (simp add: createAsteroid_def rand_def xSpriteCreate_def record_calls_def Let_def)

lemma spawn_one_result:
  "spawn_one p sz v a st =
     st\<lparr>rand_idx := rand_idx st + 5, next_handle := next_handle st + 1,
        calls := calls st @
           [SpriteCreate (astImages ! nat (int (rand_seq st (rand_idx st + 4)) mod 3)) (x p) (y p)
              (sint (word_of_int (int (rand_seq st (rand_idx st + 2)) mod 360) :: 16 word))
              (sizeToPix (sint (sz - 1))) (sizeToPix (sint (sz - 1))) 1 (next_handle st),
            GroupAddSprite (astGroup st) (next_handle st)],
        asteroids :=
          \<lparr>handle = next_handle st, pos = \<lparr>x = x p, y = y p\<rparr>,
            vel = \<lparr>x = real_of_int (int (rand_seq st (rand_idx st)) mod to_int8 (v * 10)) / 5
                        - real_of_int v,
                    y = real_of_int (int (rand_seq st (rand_idx st + 1)) mod to_int8 (v * 10)) / 5
                        - real_of_int v\<rparr>,
            accel = 0, angle = word_of_int (int (rand_seq st (rand_idx st + 2)) mod 360),
            a_vel = word_of_int (trunc_int
                      (real_of_int (int (rand_seq st (rand_idx st + 3)) mod to_int8 (a * 10)) / 5
                         - real_of_int a)),
            osize = sz - 1, life = 0\<rparr> # asteroids st\<rparr>"
  by (simp add: spawn_one_def createAsteroid_result rand_def Let_def eval_nat_numeral)

lemma spawn_one_child:
  "\<exists>c r1 r2. asteroids (spawn_one p sz v a st) = c # asteroids st \<and> pos c = p \<and> osize c = sz - 1
     \<and> 0 \<le> r1 \<and> 0 \<le> r2
     \<and> x (vel c) = real_of_int (r1 mod to_int8 (v * 10)) / 5 - real_of_int v
     \<and> y (vel c) = real_of_int (r2 mod to_int8 (v * 10)) / 5 - real_of_int v"
  apply (simp add: spawn_one_result)
  apply (rule exI[of _ "int (rand_seq st (rand_idx st))"])
  apply simp
  apply (rule exI[of _ "int (rand_seq st (rand_idx st + 1))"])
  apply simp
  done

lemma spawn_three:
  "\<exists>c1 c2 c3.
     asteroids (spawn_one p sz v a (spawn_one p sz v a (spawn_one p sz v a st)))
       = [c3, c2, c1] @ asteroids st
     \<and> (\<forall>c \<in> {c1, c2, c3}. pos c = p \<and> osize c = sz - 1
           \<and> (\<exists>r1 r2. 0 \<le> r1 \<and> 0 \<le> r2
                 \<and> x (vel c) = real_of_int (r1 mod to_int8 (v * 10)) / 5 - real_of_int v
                 \<and> y (vel c) = real_of_int (r2 mod to_int8 (v * 10)) / 5 - real_of_int v))"
proof -
  let ?s1 = "spawn_one p sz v a st"
  let ?s2 = "spawn_one p sz v a ?s1"
  obtain c1 r1 r2 where c1: "asteroids ?s1 = c1 # asteroids st" "pos c1 = p" "osize c1 = sz - 1"
      "0 \<le> r1" "0 \<le> r2"
      "x (vel c1) = real_of_int (r1 mod to_int8 (v * 10)) / 5 - real_of_int v"
      "y (vel c1) = real_of_int (r2 mod to_int8 (v * 10)) / 5 - real_of_int v"
    using spawn_one_child [of p sz v a st] by blast
  obtain c2 r3 r4 where c2: "asteroids ?s2 = c2 # asteroids ?s1" "pos c2 = p" "osize c2 = sz - 1"
      "0 \<le> r3" "0 \<le> r4"
      "x (vel c2) = real_of_int (r3 mod to_int8 (v * 10)) / 5 - real_of_int v"
      "y (vel c2) = real_of_int (r4 mod to_int8 (v * 10)) / 5 - real_of_int v"
    using spawn_one_child [of p sz v a ?s1] by blast
  obtain c3 r5 r6 where c3: "asteroids (spawn_one p sz v a ?s2) = c3 # asteroids ?s2"
      "pos c3 = p" "osize c3 = sz - 1"
      "0 \<le> r5" "0 \<le> r6"
      "x (vel c3) = real_of_int (r5 mod to_int8 (v * 10)) / 5 - real_of_int v"
      "y (vel c3) = real_of_int (r6 mod to_int8 (v * 10)) / 5 - real_of_int v"
    using spawn_one_child [of p sz v a ?s2] by blast
  have "asteroids (spawn_one p sz v a ?s2) = [c3, c2, c1] @ asteroids st"
    using c1(1) c2(1) c3(1) by simp
  moreover have "\<forall>c \<in> {c1, c2, c3}. pos c = p \<and> osize c = sz - 1
           \<and> (\<exists>r1 r2. 0 \<le> r1 \<and> 0 \<le> r2
                 \<and> x (vel c) = real_of_int (r1 mod to_int8 (v * 10)) / 5 - real_of_int v
                 \<and> y (vel c) = real_of_int (r2 mod to_int8 (v * 10)) / 5 - real_of_int v)"
    using c1 c2 c3 by blast
  ultimately show ?thesis by blast
qed

lemma spawnAsteroid_none: "\<not> 1 < unat sz \<Longrightarrow> spawnAsteroid p sz st = st"
  by (simp add: spawnAsteroid_def)

lemma spawnAsteroid_three:
  assumes "1 < unat sz" and "spawn_limits (int (unat sz) - 1) = (v, a)"
  shows "\<exists>c1 c2 c3.
     asteroids (spawnAsteroid p sz st) = [c3, c2, c1] @ asteroids st
     \<and> (\<forall>c \<in> {c1, c2, c3}. pos c = p \<and> osize c = sz - 1
           \<and> (\<exists>r1 r2. 0 \<le> r1 \<and> 0 \<le> r2
                 \<and> x (vel c) = real_of_int (r1 mod to_int8 (v * 10)) / 5 - real_of_int v
                 \<and> y (vel c) = real_of_int (r2 mod to_int8 (v * 10)) / 5 - real_of_int v))"
  using assms spawn_three [of p sz v a st]
  by (simp add: spawnAsteroid_def)

text \<open>
  Claim C1. \<^verbatim>\<open>spawnAsteroid\<close> links new asteroids in front of the list and leaves
  the rest of the list as it was. It never creates an asteroid of size 0. For a
  destroyed asteroid of size 1 it creates none; for size 2 or 3 it creates
  exactly three, each of size one less and each at the position it was given.
\<close>

theorem spawnAsteroid_decomposition:
  "\<exists>children. asteroids (spawnAsteroid p sz st) = children @ asteroids st
     \<and> (\<forall>c \<in> set children. osize c \<noteq> 0)
     \<and> (sz \<in> {1, 2, 3} \<longrightarrow>
          length children = (if sz = 1 then 0 else 3)
          \<and> (\<forall>c \<in> set children. osize c = sz - 1 \<and> pos c = p))"
proof (cases "1 < unat sz")
  case False
  then have "sz = 0 \<or> sz = 1"
    by (auto simp: word_unat_eq_iff)
  with False show ?thesis
    by (auto simp: spawnAsteroid_none intro!: exI [of _ "[]"])
next
  case True
  then have nz: "sz - 1 \<noteq> 0" "sz \<noteq> 1" by auto
  obtain v a where "spawn_limits (int (unat sz) - 1) = (v, a)"
    by (cases "spawn_limits (int (unat sz) - 1)")
  from spawnAsteroid_three [OF True this, of p st] obtain c1 c2 c3 where
    c: "asteroids (spawnAsteroid p sz st) = [c3, c2, c1] @ asteroids st"
       "\<forall>c \<in> {c1, c2, c3}. pos c = p \<and> osize c = sz - 1"
    by blast
  show ?thesis
    by (rule exI [of _ "[c3, c2, c1]"]) (use c nz in auto)
qed

theorem spawnAsteroid_decomposition_witness:
  "(3 :: 8 word) \<in> {1, 2, 3}
   \<and> (\<exists>children. asteroids (spawnAsteroid \<lparr>x = 400, y = 300\<rparr> 3 demo_game)
          = children @ asteroids demo_game
        \<and> length children = 3
        \<and> (\<forall>c \<in> set children. osize c = 2 \<and> pos c = \<lparr>x = 400, y = 300\<rparr>))"
  using spawnAsteroid_decomposition [of "\<lparr>x = 400, y = 300\<rparr>" 3 demo_game]
  by auto

lemma spawn_limits_vals:
  "spawn_limits 2 = (3, 6)" "spawn_limits 1 = (4, 9)"
  by (simp_all add: spawn_limits_def trunc_int_def AST_MAX_VEL_2_def AST_MAX_AVEL_2_def
        AST_MAX_VEL_1_def AST_MAX_AVEL_1_def)

lemma vel_component_bounds:
  fixes r :: int
  shows "- 3 \<le> real_of_int (r mod 30) / 5 - 3 \<and> real_of_int (r mod 30) / 5 - 3 \<le> 3"
proof -
  have "0 \<le> r mod 30" "r mod 30 < 30" by simp_all
  then have "0 \<le> real_of_int (r mod 30)" "real_of_int (r mod 30) \<le> 30"
    by linarith+
  then show ?thesis by simp
qed

lemma asteroid_hit_single:
  assumes "asteroids st = [a]" "handle a = hit"
  shows "asteroid_hit hit st =
           spawnAsteroid (pos a) (osize a)
             ((record_calls [SpriteDelete (handle a)] st)\<lparr>asteroids := []\<rparr>)"
  using assms by (simp add: asteroid_hit_def)

lemma size3_children:
  assumes "asteroids st0 = []"
  shows "length (asteroids (spawnAsteroid p 3 st0)) = 3
     \<and> (\<forall>c \<in> set (asteroids (spawnAsteroid p 3 st0)).
           osize c = 2 \<and> pos c = p
           \<and> - 3 \<le> x (vel c) \<and> x (vel c) \<le> 3 \<and> - 3 \<le> y (vel c) \<and> y (vel c) \<le> 3)"
proof -
  have big: "1 < unat (3 :: 8 word)" by simp
  have lim: "spawn_limits (int (unat (3 :: 8 word)) - 1) = (3, 6)"
    by (simp add: spawn_limits_vals)
  from spawnAsteroid_three [OF big lim, of p st0] obtain c1 c2 c3 where
    l: "asteroids (spawnAsteroid p 3 st0) = [c3, c2, c1] @ asteroids st0" and
    f: "\<forall>c \<in> {c1, c2, c3}. pos c = p \<and> osize c = 3 - 1
           \<and> (\<exists>r1 r2. 0 \<le> r1 \<and> 0 \<le> r2
                 \<and> x (vel c) = real_of_int (r1 mod to_int8 (3 * 10)) / 5 - real_of_int 3
                 \<and> y (vel c) = real_of_int (r2 mod to_int8 (3 * 10)) / 5 - real_of_int 3)"
    by blast
  have "\<forall>c \<in> {c1, c2, c3}. osize c = 2 \<and> pos c = p
           \<and> - 3 \<le> x (vel c) \<and> x (vel c) \<le> 3 \<and> - 3 \<le> y (vel c) \<and> y (vel c) \<le> 3"
  proof
    fix c assume "c \<in> {c1, c2, c3}"
    with f obtain r1 r2 where c: "pos c = p" "osize c = 3 - 1"
      "x (vel c) = real_of_int (r1 mod to_int8 (3 * 10)) / 5 - real_of_int 3"
      "y (vel c) = real_of_int (r2 mod to_int8 (3 * 10)) / 5 - real_of_int 3"
      by blast
    have "x (vel c) = real_of_int (r1 mod 30) / 5 - 3" "y (vel c) = real_of_int (r2 mod 30) / 5 - 3"
      using c(3,4) by (simp_all add: to_int8_vals)
    then show "osize c = 2 \<and> pos c = p
           \<and> - 3 \<le> x (vel c) \<and> x (vel c) \<le> 3 \<and> - 3 \<le> y (vel c) \<and> y (vel c) \<le> 3"
      using vel_component_bounds [of r1] vel_component_bounds [of r2] c(1,2) by simp
  qed
  with l assms show ?thesis by simp
qed

text \<open>
  Claim C3, as amended. A bullet is reported as colliding with the only asteroid
  of the list, which has size 3 and lies at (400, 300). Whatever \<^verbatim>\<open>rand()\<close>
  returns, the bullet is unlinked and the list then holds exactly three
  asteroids, each of size 2, each at (400, 300); each velocity component lies in
  [-3, 3], the limit \<^verbatim>\<open>AST_MAX_VEL_2\<close> of the new size.
\<close>

theorem size3_collision_scenario:
  assumes "asteroids st = [a]" and "osize a = 3" and "pos a = \<lparr>x = 400, y = 300\<rparr>"
    and "coll (calls st @ [SpriteSetPosition (handle b) (to_uint16 (x (pos b)))
                             (to_uint16 (y (pos b)))]) (handle b) (astGroup st) = Some (handle a)"
  shows "fst (draw_bullets coll [b] st) = []
     \<and> length (asteroids (snd (draw_bullets coll [b] st))) = 3
     \<and> (\<forall>c \<in> set (asteroids (snd (draw_bullets coll [b] st))).
           osize c = 2 \<and> pos c = \<lparr>x = 400, y = 300\<rparr>
           \<and> - 3 \<le> x (vel c) \<and> x (vel c) \<le> 3 \<and> - 3 \<le> y (vel c) \<and> y (vel c) \<le> 3)"
proof -
  let ?st1 = "record_calls [SpriteDelete (handle b)]
                (record_calls [SpriteSetPosition (handle b) (to_uint16 (x (pos b)))
                                 (to_uint16 (y (pos b)))] st)"
  let ?st0 = "(record_calls [SpriteDelete (handle a)] ?st1)\<lparr>asteroids := []\<rparr>"
  have a1: "asteroids ?st1 = [a]" using assms(1) by (simp add: record_calls_def)
  have run: "draw_bullets coll [b] st = ([], asteroid_hit (handle a) ?st1)"
    using assms(4) by (simp add: record_calls_def)
  have hit: "asteroid_hit (handle a) ?st1 = spawnAsteroid \<lparr>x = 400, y = 300\<rparr> 3 ?st0"
    using asteroid_hit_single [OF a1 refl] assms(2,3) by simp
  have "asteroids ?st0 = []" by simp
  from size3_children [OF this, of "\<lparr>x = 400, y = 300\<rparr>"] show ?thesis
    unfolding run hit fst_conv snd_conv by blast
qed

theorem size3_collision_scenario_witness:
  "fst (draw_bullets demo_coll [demo_bullet] demo_game) = []
     \<and> length (asteroids (snd (draw_bullets demo_coll [demo_bullet] demo_game))) = 3
     \<and> list_all (\<lambda>c. osize c = 2 \<and> pos c = \<lparr>x = 400, y = 300\<rparr>
           \<and> - 3 \<le> x (vel c) \<and> x (vel c) \<le> 3 \<and> - 3 \<le> y (vel c) \<and> y (vel c) \<le> 3)
         (asteroids (snd (draw_bullets demo_coll [demo_bullet] demo_game)))"
proof -
  have a: "asteroids demo_game = [demo_asteroid]" by (simp add: demo_game_def)
  have b: "osize demo_asteroid = 3" by (simp add: demo_asteroid_def)
  have c: "pos demo_asteroid = \<lparr>x = 400, y = 300\<rparr>" by (simp add: demo_asteroid_def)
  have d: "demo_coll (calls demo_game @ [SpriteSetPosition (handle demo_bullet)
             (to_uint16 (x (pos demo_bullet))) (to_uint16 (y (pos demo_bullet)))])
             (handle demo_bullet) (astGroup demo_game) = Some (handle demo_asteroid)"
    by (simp add: demo_coll_def demo_bullet_def demo_asteroid_def)
  show ?thesis
    using size3_collision_scenario
      [where st = demo_game and a = demo_asteroid and coll = demo_coll and b = demo_bullet,
       OF a b c d]
    unfolding list_all_iff by blast
qed

text \<open>
  The same collision with a generator that returns 0 at every call: the first
  asteroid of the list afterwards has the horizontal velocity -3, outside
  [-2, 2].
\<close>

theorem size3_velocity_counterexample:
  "asteroids demo_game = [demo_asteroid] \<and> osize demo_asteroid = 3
   \<and> pos demo_asteroid = \<lparr>x = 400, y = 300\<rparr>
   \<and> x (vel (hd (asteroids (snd (draw_bullets demo_coll [demo_bullet] demo_game))))) = - 3
   \<and> \<not> - 2 \<le> x (vel (hd (asteroids (snd (draw_bullets demo_coll [demo_bullet] demo_game)))))"
  by (simp add: demo_game_def demo_bullet_def demo_coll_def demo_asteroid_def demo_seq_def
    record_calls_def asteroid_hit_def spawnAsteroid_def spawn_limits_vals spawn_one_result to_int8_vals)

section \<open>The integrator\<close>

lemma wrap_coord_range:
  assumes "0 \<le> c" "c \<le> real_of_int d" "\<bar>v\<bar> < real_of_int d"
  shows "0 \<le> wrap_coord d (c + v) \<and> wrap_coord d (c + v) \<le> real_of_int d"
  using assms by (auto simp: wrap_coord_def)

lemma move_object_in_screen:
  assumes "in_screen ob" "slow ob"
  shows "in_screen (move_object ob)"
  using assms wrap_coord_range [of "x (pos ob)" SCREEN_W "x (vel ob)"]
    wrap_coord_range [of "y (pos ob)" SCREEN_H "y (vel ob)"]
  by (simp add: in_screen_def slow_def move_object_def)

lemma move_object_vel [simp]: "vel (move_object ob) = vel ob"
  by (simp add: move_object_def)

lemma thrust_ship_sq:
  "(x (vel (thrust_ship s)))\<^sup>2 + (y (vel (thrust_ship s)))\<^sup>2 \<le> SHIP_MAX_VEL"
proof -
  define vx where "vx = x (vel s) + accel s * - sin (heading_rad s)"
  define vy where "vy = y (vel s) + accel s * - cos (heading_rad s)"
  define q where "q = vx * vx + vy * vy"
  show ?thesis
  proof (cases "SHIP_MAX_VEL < q")
    case False
    then show ?thesis
      by (simp add: thrust_ship_def Let_def vx_def vy_def q_def power2_eq_square)
  next
    case True
    then have q8: "8 < q" by (simp add: SHIP_MAX_VEL_def)
    have v: "vel (thrust_ship s) = \<lparr>x = vx * (8 / q), y = vy * (8 / q)\<rparr>"
      using True by (simp add: thrust_ship_def Let_def vx_def vy_def q_def SHIP_MAX_VEL_def)
    have "(vx * k)\<^sup>2 + (vy * k)\<^sup>2 = q * k\<^sup>2" for k
      by (simp add: q_def power2_eq_square algebra_simps)
    then have "(vx * (8 / q))\<^sup>2 + (vy * (8 / q))\<^sup>2 = q * (8 / q)\<^sup>2" .
    also have "\<dots> = 64 / q" using q8 by (simp add: power2_eq_square)
    also have "\<dots> \<le> 8" using q8 by (simp add: field_simps)
    finally show ?thesis by (simp add: v SHIP_MAX_VEL_def)
  qed
qed

lemma sq_small_abs:
  fixes a b :: real
  assumes "a\<^sup>2 + b\<^sup>2 \<le> 8"
  shows "\<bar>a\<bar> < 600 \<and> \<bar>b\<bar> < 600"
proof -
  have "a\<^sup>2 \<le> 8" "b\<^sup>2 \<le> 8" using assms by (smt (verit) zero_le_power2)+
  then have "a\<^sup>2 < 600\<^sup>2" "b\<^sup>2 < 600\<^sup>2" by simp_all
  then show ?thesis
    by (metis abs_le_square_iff linorder_not_le abs_numeral)
qed

lemma updateTask_pass_fields:
  "ship (updateTask_pass r st) = move_object (thrust_ship (spin_ship (ship st)))"
  "bullets (updateTask_pass r st) = fst (move_bullets (bullets st))"
  "asteroids (updateTask_pass r st) = map move_object (asteroids st)"
  "calls (updateTask_pass r st)
     = calls st @ snd (move_bullets (bullets st)) @ [TaskDelay (FRAME_DELAY_MS div r)]"
  by (simp_all add: updateTask_pass_def Let_def split_beta)

lemma move_bullets_kept:
  "fst (move_bullets bs)
     = map (\<lambda>b. move_object (b\<lparr>life := life b + 10\<rparr>))
         (filter (\<lambda>b. unat (life b + 10) < 1000) bs)"
  by (induction bs) (simp_all add: split_beta Let_def FRAME_DELAY_MS_def BULLET_LIFE_MS_def)

lemma move_bullets_calls:
  "snd (move_bullets bs)
     = concat (map (\<lambda>b. [SemaphoreTake, SpriteDelete (handle b), SemaphoreGive])
         (filter (\<lambda>b. 1000 \<le> unat (life b + 10)) bs))"
  by (induction bs) (simp_all add: split_beta Let_def FRAME_DELAY_MS_def BULLET_LIFE_MS_def)

lemma in_screen_life [simp]: "in_screen (b\<lparr>life := l\<rparr>) = in_screen b"
  by (simp add: in_screen_def)

lemma slow_life [simp]: "slow (b\<lparr>life := l\<rparr>) = slow b"
  by (simp add: slow_def)

lemma slow_move_object [simp]: "slow (move_object b) = slow b"
  by (simp add: slow_def)

lemma move_bullets_in_screen:
  assumes "list_all in_screen bs" "list_all slow bs"
  shows "list_all in_screen (fst (move_bullets bs))"
  using assms by (auto simp: move_bullets_kept list_all_iff intro: move_object_in_screen)

lemma move_bullets_slow:
  assumes "list_all slow bs"
  shows "list_all slow (fst (move_bullets bs))"
  using assms by (auto simp: move_bullets_kept list_all_iff)

lemma ship_slow_after_thrust: "slow (thrust_ship s)"
  using thrust_ship_sq [of s] sq_small_abs [of "x (vel (thrust_ship s))" "y (vel (thrust_ship s))"]
  by (simp add: slow_def SHIP_MAX_VEL_def SCREEN_W_def SCREEN_H_def)

lemma thrust_ship_pos [simp]: "pos (thrust_ship s) = pos s"
  by (simp add: thrust_ship_def Let_def)

lemma spin_ship_pos [simp]: "pos (spin_ship s) = pos s"
  by (simp add: spin_ship_def Let_def)

lemma ship_in_screen:
  assumes "in_screen s"
  shows "in_screen (move_object (thrust_ship (spin_ship s)))"
proof -
  have "in_screen (thrust_ship (spin_ship s))"
    using assms by (simp add: in_screen_def)
  then show ?thesis
    by (rule move_object_in_screen) (rule ship_slow_after_thrust)
qed

lemma updateTask_pass_invariant:
  assumes "all_in_screen st" "list_all slow (bullets st)" "list_all slow (asteroids st)"
  shows "all_in_screen (updateTask_pass r st)
     \<and> list_all slow (bullets (updateTask_pass r st))
     \<and> list_all slow (asteroids (updateTask_pass r st))"
proof -
  have "in_screen (ship (updateTask_pass r st))"
    using assms(1) by (simp add: updateTask_pass_fields all_in_screen_def ship_in_screen)
  moreover have "list_all in_screen (bullets (updateTask_pass r st))"
    using assms(1,2) by (simp add: updateTask_pass_fields all_in_screen_def move_bullets_in_screen)
  moreover have "list_all in_screen (asteroids (updateTask_pass r st))"
    using assms(1,3)
    by (auto simp: updateTask_pass_fields all_in_screen_def list_all_iff
          intro: move_object_in_screen)
  moreover have "list_all slow (bullets (updateTask_pass r st))"
    using assms(2) by (simp add: updateTask_pass_fields move_bullets_slow)
  moreover have "list_all slow (asteroids (updateTask_pass r st))"
    using assms(3) by (auto simp: updateTask_pass_fields list_all_iff)
  ultimately show ?thesis by (simp add: all_in_screen_def)
qed

text \<open>
  Claim C2, as amended. If the ship, every bullet and every asteroid lie on the
  screen, borders included (x in [0, 800], y in [0, 600]), and every bullet and
  asteroid moves by less than the screen dimension per tick on each axis, then
  after any number of passes of \<^verbatim>\<open>updateTask\<close> they all lie on the screen again,
  borders included. The ship needs no hypothesis on its velocity: the thrust step
  bounds it.
\<close>

theorem toroidal_wrap_closed:
  assumes "all_in_screen st" and "list_all slow (bullets st)" and "list_all slow (asteroids st)"
  shows "all_in_screen ((updateTask_pass tick_ms ^^ n) st)"
proof -
  have "all_in_screen ((updateTask_pass tick_ms ^^ n) st)
     \<and> list_all slow (bullets ((updateTask_pass tick_ms ^^ n) st))
     \<and> list_all slow (asteroids ((updateTask_pass tick_ms ^^ n) st))"
  proof (induction n)
    case 0
    show ?case using assms by simp
  next
    case (Suc n)
    then show ?case using updateTask_pass_invariant by simp
  qed
  then show ?thesis by simp
qed

text \<open>
  An asteroid at x = 799 that moves by 1 per tick is at x = 800 after one pass:
  the adjustment tests \<^verbatim>\<open>pos.x > SCREEN_W\<close>, which 800 does not satisfy.
\<close>

theorem toroidal_wrap_counterexample:
  "asteroids edge_game = [edge_asteroid]
   \<and> x (pos edge_asteroid) = 799 \<and> x (vel edge_asteroid) = 1
   \<and> x (pos (hd (asteroids (updateTask_pass 1 edge_game)))) = 800
   \<and> \<not> x (pos (hd (asteroids (updateTask_pass 1 edge_game)))) < real_of_int SCREEN_W"
  by (simp add: updateTask_pass_fields edge_game_def edge_asteroid_def in_screen_def slow_def
        move_object_def wrap_coord_def SCREEN_W_def SCREEN_H_def)

theorem toroidal_wrap_closed_witness:
  "all_in_screen edge_game \<and> list_all slow (bullets edge_game)
   \<and> list_all slow (asteroids edge_game)
   \<and> all_in_screen ((updateTask_pass 1 ^^ 3) edge_game)"
proof -
  have a: "all_in_screen edge_game"
    by (simp add: all_in_screen_def edge_game_def demo_game_def in_screen_def demo_ship_def
          demo_bullet_def edge_asteroid_def SCREEN_W_def SCREEN_H_def)
  have b: "list_all slow (bullets edge_game)"
    by (simp add: edge_game_def demo_game_def slow_def demo_bullet_def SCREEN_W_def SCREEN_H_def)
  have c: "list_all slow (asteroids edge_game)"
    by (simp add: edge_game_def slow_def edge_asteroid_def SCREEN_W_def SCREEN_H_def)
  show ?thesis using a b c toroidal_wrap_closed [OF a b c, where tick_ms = 1 and n = 3] by simp
qed

text \<open>
  Claim C5. The thrust step adds \<^verbatim>\<open>accel\<close> times (-sin, -cos) of the heading in
  radians to the velocity, compares the sum of the squared components with
  \<^verbatim>\<open>SHIP_MAX_VEL\<close>, and when the sum is larger multiplies both components by
  \<^verbatim>\<open>SHIP_MAX_VEL\<close> divided by that sum. The speed that results is at most
  \<^verbatim>\<open>SHIP_MAX_VEL\<close>, and it is the speed of the ship after the pass.
\<close>

theorem thrust_clamp:
  "vel (thrust_ship s) =
     (let vx = x (vel s) + accel s * - sin (real_of_int (sint (angle s)) * pi / 180);
          vy = y (vel s) + accel s * - cos (real_of_int (sint (angle s)) * pi / 180);
          v = vx * vx + vy * vy
      in if SHIP_MAX_VEL < v
         then \<lparr>x = vx * (SHIP_MAX_VEL / v), y = vy * (SHIP_MAX_VEL / v)\<rparr>
         else \<lparr>x = vx, y = vy\<rparr>)
   \<and> sqrt ((x (vel (thrust_ship s)))\<^sup>2 + (y (vel (thrust_ship s)))\<^sup>2) \<le> SHIP_MAX_VEL
   \<and> vel (ship (updateTask_pass tick_ms st)) = vel (thrust_ship (spin_ship (ship st)))"
proof -
  let ?q = "(x (vel (thrust_ship s)))\<^sup>2 + (y (vel (thrust_ship s)))\<^sup>2"
  have "?q \<le> 8" using thrust_ship_sq [of s] by (simp add: SHIP_MAX_VEL_def)
  then have "sqrt ?q \<le> sqrt 64" by (subst real_sqrt_le_iff) simp
  moreover have "sqrt 64 = (8::real)" using real_sqrt_abs [of 8] by simp
  ultimately have "sqrt ?q \<le> SHIP_MAX_VEL" by (simp add: SHIP_MAX_VEL_def)
  then show ?thesis
    by (simp add: thrust_ship_def heading_rad_def Let_def updateTask_pass_fields)
qed

theorem thrust_clamp_witness:
  "vel (thrust_ship fast_ship) = \<lparr>x = 24 / 25, y = 32 / 25\<rparr>
   \<and> sqrt ((x (vel (thrust_ship fast_ship)))\<^sup>2 + (y (vel (thrust_ship fast_ship)))\<^sup>2) \<le> 8"
proof -
  note h = thrust_clamp [where s = fast_ship and tick_ms = 1 and st = demo_game]
  have v: "vel (thrust_ship fast_ship) = \<lparr>x = 24 / 25, y = 32 / 25\<rparr>"
    using h by (simp add: fast_ship_def demo_ship_def SHIP_MAX_VEL_def Let_def)
  have s: "sqrt ((x (vel (thrust_ship fast_ship)))\<^sup>2 + (y (vel (thrust_ship fast_ship)))\<^sup>2) \<le> 8"
    using h unfolding SHIP_MAX_VEL_def by blast
  show ?thesis using v s by blast
qed

lemma unat_life_step:
  fixes l :: "16 word"
  assumes "unat l < 1000"
  shows "unat (l + 10) = unat l + 10"
  using assms by (simp add: unat_word_ariths)

lemma bullets_after_ticks:
  assumes "\<forall>b \<in> set (bullets st). unat (life b) < 1000"
  shows "map (\<lambda>b. (handle b, unat (life b))) (bullets ((updateTask_pass r ^^ n) st))
     = map (\<lambda>b. (handle b, unat (life b) + 10 * n))
         (filter (\<lambda>b. unat (life b) + 10 * n < 1000) (bullets st))"
  using assms
proof (induction n arbitrary: st)
  case 0
  then show ?case by (simp cong: filter_cong)
next
  case (Suc n)
  let ?st1 = "updateTask_pass r st"
  have b1: "bullets ?st1 = map (\<lambda>b. move_object (b\<lparr>life := life b + 10\<rparr>))
              (filter (\<lambda>b. unat (life b + 10) < 1000) (bullets st))"
    by (simp add: updateTask_pass_fields move_bullets_kept)
  have pre: "\<forall>b \<in> set (bullets ?st1). unat (life b) < 1000"
    by (auto simp: b1 move_object_def)
  have "map (\<lambda>b. (handle b, unat (life b))) (bullets ((updateTask_pass r ^^ Suc n) st))
      = map (\<lambda>b. (handle b, unat (life b))) (bullets ((updateTask_pass r ^^ n) ?st1))"
    by (simp add: funpow_swap1)
  also have "\<dots> = map (\<lambda>b. (handle b, unat (life b) + 10 * n))
         (filter (\<lambda>b. unat (life b) + 10 * n < 1000) (bullets ?st1))"
    by (rule Suc.IH [OF pre])
  also have "\<dots> = map (\<lambda>b. (handle b, unat (life b + 10) + 10 * n))
         (filter (\<lambda>b. unat (life b + 10) < 1000 \<and> unat (life b + 10) + 10 * n < 1000)
            (bullets st))"
    by (simp add: b1 filter_map o_def move_object_def conj_commute)
  also have "\<dots> = map (\<lambda>b. (handle b, unat (life b) + 10 * Suc n))
         (filter (\<lambda>b. unat (life b) + 10 * Suc n < 1000) (bullets st))"
  proof -
    have f: "filter (\<lambda>b. unat (life b + 10) < 1000 \<and> unat (life b + 10) + 10 * n < 1000)
               (bullets st)
           = filter (\<lambda>b. unat (life b) + 10 * Suc n < 1000) (bullets st)"
      using Suc.prems by (intro filter_cong refl) (auto simp: unat_life_step)
    show ?thesis
      unfolding f using Suc.prems by (intro map_cong refl) (auto simp: unat_life_step)
  qed
  finally show ?case .
qed

text \<open>
  Claim C6. A bullet is created with age 0. As long as every bullet of the list
  is younger than \<^verbatim>\<open>BULLET_LIFE_MS\<close> (which holds from creation on), the list after
  \<open>n\<close> passes of \<^verbatim>\<open>updateTask\<close> holds, in the same order, exactly the bullets
  whose age plus 10 ms per pass is still below 1000 ms, each with that age: a
  bullet leaves the list on the pass that takes its age to 1000 ms, and one
  whose age reaches 990 ms stays. On that pass the sprite of each bullet that
  leaves is deleted, between taking and giving the mutex.
\<close>

theorem bullet_expiry:
  assumes "\<forall>b \<in> set (bullets st). unat (life b) < BULLET_LIFE_MS"
  shows "map (\<lambda>b. (handle b, unat (life b))) (bullets ((updateTask_pass tick_ms ^^ n) st))
       = map (\<lambda>b. (handle b, unat (life b) + FRAME_DELAY_MS * n))
           (filter (\<lambda>b. unat (life b) + FRAME_DELAY_MS * n < BULLET_LIFE_MS) (bullets st))
     \<and> calls (updateTask_pass tick_ms st)
       = calls st
         @ concat (map (\<lambda>b. [SemaphoreTake, SpriteDelete (handle b), SemaphoreGive])
             (filter (\<lambda>b. BULLET_LIFE_MS \<le> unat (life b) + FRAME_DELAY_MS) (bullets st)))
         @ [TaskDelay (FRAME_DELAY_MS div tick_ms)]
     \<and> life (hd (fst (createBullet px py velx vely nxt st))) = 0"
proof -
  have pre: "\<forall>b \<in> set (bullets st). unat (life b) < 1000"
    using assms by (simp add: BULLET_LIFE_MS_def)
  have "filter (\<lambda>b. 1000 \<le> unat (life b + 10)) (bullets st)
      = filter (\<lambda>b. 1000 \<le> unat (life b) + 10) (bullets st)"
    using pre by (intro filter_cong refl) (simp add: unat_life_step)
  then have c: "calls (updateTask_pass tick_ms st)
       = calls st
         @ concat (map (\<lambda>b. [SemaphoreTake, SpriteDelete (handle b), SemaphoreGive])
             (filter (\<lambda>b. 1000 \<le> unat (life b) + 10) (bullets st)))
         @ [TaskDelay (FRAME_DELAY_MS div tick_ms)]"
    by (simp add: updateTask_pass_fields move_bullets_calls)
  have n: "life (hd (fst (createBullet px py velx vely nxt st))) = 0"
    by (simp add: createBullet_def xSpriteCreate_def)
  show ?thesis
    using bullets_after_ticks [OF pre, where r = tick_ms and n = n] c n
    by (simp add: BULLET_LIFE_MS_def FRAME_DELAY_MS_def)
qed

theorem bullet_expiry_witness:
  "list_all (\<lambda>b. unat (life b) < BULLET_LIFE_MS) (bullets demo_game)
   \<and> map (\<lambda>b. (handle b, unat (life b))) (bullets ((updateTask_pass 1 ^^ 91) demo_game))
       = [(4, 990)]
   \<and> bullets ((updateTask_pass 1 ^^ 92) demo_game) = []"
proof -
  have a: "\<forall>b \<in> set (bullets demo_game). unat (life b) < BULLET_LIFE_MS"
    by (simp add: demo_game_def demo_bullet_def BULLET_LIFE_MS_def)
  have "map (\<lambda>b. (handle b, unat (life b))) (bullets ((updateTask_pass 1 ^^ 91) demo_game))
       = [(4, 990)]"
    using bullet_expiry [OF a, where tick_ms = 1 and n = 91]
    by (simp add: demo_game_def demo_bullet_def BULLET_LIFE_MS_def FRAME_DELAY_MS_def)
  moreover have "bullets ((updateTask_pass 1 ^^ 92) demo_game) = []"
    using bullet_expiry [OF a, where tick_ms = 1 and n = 92]
    by (simp add: demo_game_def demo_bullet_def BULLET_LIFE_MS_def FRAME_DELAY_MS_def)
  ultimately show ?thesis using a by (simp add: list_all_iff)
qed

text \<open>
  Claim C10. When the age of the bullet \<open>b\<close> reaches \<^verbatim>\<open>BULLET_LIFE_MS\<close> on a
  pass, the list after the pass holds only the other bullets, each aged and
  moved from its own previous state, exactly as the pass computes them for the
  list without \<open>b\<close>; the only calls made for \<open>b\<close> delete its sprite; the ship and
  the asteroids are as they are after a pass without \<open>b\<close>.
\<close>

theorem expired_bullet_frame:
  assumes "BULLET_LIFE_MS \<le> unat (life b + word_of_nat FRAME_DELAY_MS)"
  shows "fst (move_bullets (earlier @ b # later))
       = map (\<lambda>c. move_object (c\<lparr>life := life c + 10\<rparr>))
           (filter (\<lambda>c. unat (life c + 10) < 1000) (earlier @ later))
     \<and> snd (move_bullets (earlier @ b # later))
       = snd (move_bullets earlier) @ [SemaphoreTake, SpriteDelete (handle b), SemaphoreGive]
           @ snd (move_bullets later)
     \<and> bullets (updateTask_pass tick_ms (st\<lparr>bullets := earlier @ b # later\<rparr>))
       = bullets (updateTask_pass tick_ms (st\<lparr>bullets := earlier @ later\<rparr>))
     \<and> ship (updateTask_pass tick_ms (st\<lparr>bullets := earlier @ b # later\<rparr>))
       = ship (updateTask_pass tick_ms (st\<lparr>bullets := earlier @ later\<rparr>))
     \<and> asteroids (updateTask_pass tick_ms (st\<lparr>bullets := earlier @ b # later\<rparr>))
       = asteroids (updateTask_pass tick_ms (st\<lparr>bullets := earlier @ later\<rparr>))"
proof -
  have e: "\<not> unat (life b + 10) < 1000"
    using assms by (simp add: BULLET_LIFE_MS_def FRAME_DELAY_MS_def)
  have k: "fst (move_bullets (earlier @ b # later)) = fst (move_bullets (earlier @ later))"
    using e by (simp add: move_bullets_kept)
  have c: "snd (move_bullets (earlier @ b # later))
       = snd (move_bullets earlier) @ [SemaphoreTake, SpriteDelete (handle b), SemaphoreGive]
           @ snd (move_bullets later)"
    using e by (simp add: move_bullets_calls)
  show ?thesis
    using k c by (simp add: updateTask_pass_fields move_bullets_kept)
qed

theorem expired_bullet_frame_witness:
  "BULLET_LIFE_MS \<le> unat (life (demo_bullet\<lparr>life := 990\<rparr>) + word_of_nat FRAME_DELAY_MS)
   \<and> bullets (updateTask_pass 1 (demo_game\<lparr>bullets := [demo_bullet] @ demo_bullet\<lparr>life := 990\<rparr> # []\<rparr>))
       = bullets (updateTask_pass 1 demo_game)"
proof -
  have a: "BULLET_LIFE_MS \<le> unat (life (demo_bullet\<lparr>life := 990\<rparr>) + word_of_nat FRAME_DELAY_MS)"
    by (simp add: BULLET_LIFE_MS_def FRAME_DELAY_MS_def)
  have "demo_game\<lparr>bullets := [demo_bullet] @ []\<rparr> = demo_game"
    by (simp add: demo_game_def)
  then show ?thesis
    using a expired_bullet_frame [OF a, where earlier = "[demo_bullet]" and later = "[]"
        and tick_ms = 1 and st = demo_game]
    by simp
qed

section \<open>The input sampler\<close>

lemma button_bits:
  "LEFT_BUTTON pinb = (\<not> bit pinb 7)"
  "RIGHT_BUTTON pinb = (\<not> bit pinb 6)"
  "ACCEL_BUTTON pinb = (\<not> bit pinb 1)"
  "SHOOT_BUTTON pinb = (\<not> bit pinb 0)"
  by (simp_all add: LEFT_BUTTON_def RIGHT_BUTTON_def ACCEL_BUTTON_def SHOOT_BUTTON_def
        PB7_def PB6_def PB1_def PB0_def push_bit_eq_mult and_exp_eq_0_iff_not_bit [where n = 7, simplified]
        and_exp_eq_0_iff_not_bit [where n = 6, simplified] and_exp_eq_0_iff_not_bit [where n = 1, simplified]
        and_exp_eq_0_iff_not_bit [where n = 0, simplified])

text \<open>
  Claim C8. After one pass of \<^verbatim>\<open>inputTask\<close> on the port value \<open>pinb\<close> (buttons
  are active low), \<^verbatim>\<open>ship.a_vel\<close> is +6 if the left button is down, whatever the
  right button; -6 if only the right button is down; 0 if neither is. And
  \<^verbatim>\<open>ship.accel\<close> is \<^verbatim>\<open>SHIP_ACCEL\<close> if the thrust button is down and 0 otherwise.
\<close>

theorem inputTask_intents:
  "sint (a_vel (ship (inputTask_pass pinb st)))
     = (if LEFT_BUTTON pinb then 6 else if RIGHT_BUTTON pinb then - 6 else 0)
   \<and> accel (ship (inputTask_pass pinb st)) = (if ACCEL_BUTTON pinb then SHIP_ACCEL else 0)
   \<and> (accel (ship (inputTask_pass pinb st)) = SHIP_ACCEL) = ACCEL_BUTTON pinb
   \<and> LEFT_BUTTON pinb = (\<not> bit pinb 7) \<and> RIGHT_BUTTON pinb = (\<not> bit pinb 6)
   \<and> ACCEL_BUTTON pinb = (\<not> bit pinb 1)
   \<and> (ship (inputTask_pass pinb st))\<lparr>a_vel := a_vel (ship st), accel := accel (ship st)\<rparr>
       = ship st
   \<and> (inputTask_pass pinb st)\<lparr>ship := ship st\<rparr> = st"
proof -
  have steer: "sint (word_of_int (trunc_int SHIP_AVEL) :: 8 word) = 6"
    "sint (word_of_int (trunc_int (- SHIP_AVEL)) :: 8 word) = - 6"
    by (simp_all add: trunc_int_def SHIP_AVEL_def)
  have a: "sint (a_vel (ship (inputTask_pass pinb st)))
     = (if LEFT_BUTTON pinb then 6 else if RIGHT_BUTTON pinb then - 6 else 0)"
    by (simp add: inputTask_pass_def Let_def steer)
  have b: "accel (ship (inputTask_pass pinb st)) = (if ACCEL_BUTTON pinb then SHIP_ACCEL else 0)"
    by (simp add: inputTask_pass_def Let_def)
  have c: "(accel (ship (inputTask_pass pinb st)) = SHIP_ACCEL) = ACCEL_BUTTON pinb"
    by (simp add: b SHIP_ACCEL_def)
  have d: "(ship (inputTask_pass pinb st))\<lparr>a_vel := a_vel (ship st), accel := accel (ship st)\<rparr>
       = ship st"
    by (simp add: inputTask_pass_def Let_def)
  have e: "(inputTask_pass pinb st)\<lparr>ship := ship st\<rparr> = st"
    by (simp add: inputTask_pass_def Let_def)
  show ?thesis
    using a b c d e button_bits(1,2,3) [of pinb] by blast
qed

theorem inputTask_intents_witness:
  "sint (a_vel (ship (inputTask_pass 0x3D demo_game))) = 6
   \<and> accel (ship (inputTask_pass 0x3D demo_game)) = SHIP_ACCEL
   \<and> sint (a_vel (ship (inputTask_pass 0xBF demo_game))) = - 6
   \<and> accel (ship (inputTask_pass 0xBF demo_game)) = 0"
proof -
  note h1 = inputTask_intents [of "0x3D" demo_game]
  note h2 = inputTask_intents [of "0xBF" demo_game]
  have b1: "\<not> bit (0x3D :: 8 word) 7" "\<not> bit (0x3D :: 8 word) 1" by simp_all
  have b2: "bit (0xBF :: 8 word) 7" "\<not> bit (0xBF :: 8 word) 6" "bit (0xBF :: 8 word) 1"
    by simp_all
  have l1: "LEFT_BUTTON 0x3D" "ACCEL_BUTTON 0x3D" using h1 b1 by blast+
  have l2: "\<not> LEFT_BUTTON 0xBF" "RIGHT_BUTTON 0xBF" "\<not> ACCEL_BUTTON 0xBF"
    using h2 b2 by blast+
  show ?thesis
    using h1 h2 by (simp only: l1 l2 if_True if_False)
qed

section \<open>The coordinator\<close>

lemma unlink_hit_first:
  assumes "\<forall>ob \<in> set pre. handle ob \<noteq> hit" "handle a = hit"
  shows "unlink_hit hit (pre @ a # post) = Some (a, pre @ post)"
  using assms by (induction pre) simp_all

lemma spawn_one_calls: "\<exists>cs. calls (spawn_one p sz v a st) = calls st @ cs"
  by (simp add: spawn_one_result)

lemma spawnAsteroid_calls: "\<exists>cs. calls (spawnAsteroid p sz st) = calls st @ cs"
proof (cases "1 < unat sz")
  case False
  then show ?thesis by (simp add: spawnAsteroid_none)
next
  case True
  obtain v a where l: "spawn_limits (int (unat sz) - 1) = (v, a)"
    by (cases "spawn_limits (int (unat sz) - 1)")
  let ?s1 = "spawn_one p sz v a st"
  let ?s2 = "spawn_one p sz v a ?s1"
  obtain c1 where "calls ?s1 = calls st @ c1" using spawn_one_calls by blast
  moreover obtain c2 where "calls ?s2 = calls ?s1 @ c2" using spawn_one_calls by blast
  moreover obtain c3 where "calls (spawn_one p sz v a ?s2) = calls ?s2 @ c3"
    using spawn_one_calls by blast
  ultimately have "calls (spawn_one p sz v a ?s2) = calls st @ (c1 @ c2 @ c3)" by simp
  then show ?thesis using True l by (simp add: spawnAsteroid_def)
qed

text \<open>
  Claim C9. When some asteroid of the list has the handle \<open>hit\<close>, the scan
  unlinks the first such asteroid \<open>a\<close> in list order and deletes its sprite;
  the asteroids before it (none of which has the handle) and all those after
  it (whatever their handles) stay in the list, in their order and unchanged,
  behind the children that \<^verbatim>\<open>spawnAsteroid\<close> links in front: three of them or
  none, at the position of \<open>a\<close>.
\<close>

theorem asteroid_scan_first_match:
  assumes "\<exists>ob \<in> set (asteroids st). handle ob = hit"
  shows "\<exists>pre a post children cs.
      asteroids st = pre @ a # post \<and> handle a = hit \<and> (\<forall>ob \<in> set pre. handle ob \<noteq> hit)
    \<and> unlink_hit hit (asteroids st) = Some (a, pre @ post)
    \<and> asteroids (asteroid_hit hit st) = children @ pre @ post
    \<and> length children = (if 1 < unat (osize a) then 3 else 0)
    \<and> (\<forall>c \<in> set children. pos c = pos a \<and> osize c = osize a - 1)
    \<and> calls (asteroid_hit hit st) = calls st @ SpriteDelete hit # cs"
proof -
  from assms obtain pre a post where
    d: "asteroids st = pre @ a # post" "handle a = hit" "\<forall>ob \<in> set pre. handle ob \<noteq> hit"
    using split_list_first_prop [of "asteroids st" "\<lambda>ob. handle ob = hit"] by blast
  have u: "unlink_hit hit (asteroids st) = Some (a, pre @ post)"
    using d unlink_hit_first by simp
  let ?st1 = "(record_calls [SpriteDelete (handle a)] st)\<lparr>asteroids := pre @ post\<rparr>"
  have h: "asteroid_hit hit st = spawnAsteroid (pos a) (osize a) ?st1"
    using u by (simp add: asteroid_hit_def)
  obtain cs where cs: "calls (spawnAsteroid (pos a) (osize a) ?st1) = calls ?st1 @ cs"
    using spawnAsteroid_calls by blast
  have c: "calls (asteroid_hit hit st) = calls st @ SpriteDelete hit # cs"
    using cs d(2) by (simp add: h record_calls_def)
  have "\<exists>children. asteroids (spawnAsteroid (pos a) (osize a) ?st1) = children @ pre @ post
      \<and> length children = (if 1 < unat (osize a) then 3 else 0)
      \<and> (\<forall>c \<in> set children. pos c = pos a \<and> osize c = osize a - 1)"
  proof (cases "1 < unat (osize a)")
    case False
    then show ?thesis by (simp add: spawnAsteroid_none)
  next
    case True
    obtain v w where l: "spawn_limits (int (unat (osize a)) - 1) = (v, w)"
      by (cases "spawn_limits (int (unat (osize a)) - 1)")
    from spawnAsteroid_three [OF True l, of "pos a" ?st1] obtain c1 c2 c3 where
      "asteroids (spawnAsteroid (pos a) (osize a) ?st1) = [c3, c2, c1] @ asteroids ?st1"
      "\<forall>c \<in> {c1, c2, c3}. pos c = pos a \<and> osize c = osize a - 1"
      by blast
    then show ?thesis using True
      by (intro exI [of _ "[c3, c2, c1]"]) simp
  qed
  then obtain children where
    "asteroids (asteroid_hit hit st) = children @ pre @ post"
    "length children = (if 1 < unat (osize a) then 3 else 0)"
    "\<forall>c \<in> set children. pos c = pos a \<and> osize c = osize a - 1"
    unfolding h by blast
  with d u c show ?thesis by blast
qed

theorem asteroid_scan_first_match_witness:
  "(\<exists>ob \<in> set (asteroids twin_game). handle ob = 3)
   \<and> (\<exists>pre a post children cs.
      asteroids twin_game = pre @ a # post \<and> handle a = 3 \<and> (\<forall>ob \<in> set pre. handle ob \<noteq> 3)
    \<and> unlink_hit 3 (asteroids twin_game) = Some (a, pre @ post)
    \<and> asteroids (asteroid_hit 3 twin_game) = children @ pre @ post
    \<and> length children = (if 1 < unat (osize a) then 3 else 0)
    \<and> (\<forall>c \<in> set children. pos c = pos a \<and> osize c = osize a - 1)
    \<and> calls (asteroid_hit 3 twin_game) = calls twin_game @ SpriteDelete 3 # cs)
   \<and> unlink_hit 3 (asteroids twin_game)
       = Some (demo_asteroid, [edge_asteroid\<lparr>handle := 8\<rparr>, edge_asteroid])
   \<and> drop 3 (asteroids (asteroid_hit 3 twin_game)) = [edge_asteroid\<lparr>handle := 8\<rparr>, edge_asteroid]
   \<and> length (asteroids (asteroid_hit 3 twin_game)) = 5"
proof -
  have a: "\<exists>ob \<in> set (asteroids twin_game). handle ob = 3"
    by (simp add: twin_game_def demo_asteroid_def)
  have u: "unlink_hit 3 (asteroids twin_game)
       = Some (demo_asteroid, [edge_asteroid\<lparr>handle := 8\<rparr>, edge_asteroid])"
    by (simp add: twin_game_def demo_asteroid_def edge_asteroid_def)
  from asteroid_scan_first_match [OF a] obtain pre b post children cs where
    f: "asteroids twin_game = pre @ b # post" "handle b = 3" "\<forall>ob \<in> set pre. handle ob \<noteq> 3"
       "unlink_hit 3 (asteroids twin_game) = Some (b, pre @ post)"
       "asteroids (asteroid_hit 3 twin_game) = children @ pre @ post"
       "length children = (if 1 < unat (osize b) then 3 else 0)"
       "\<forall>c \<in> set children. pos c = pos b \<and> osize c = osize b - 1"
       "calls (asteroid_hit 3 twin_game) = calls twin_game @ SpriteDelete 3 # cs"
    by blast
  from f(4) u have e: "b = demo_asteroid" "pre @ post = [edge_asteroid\<lparr>handle := 8\<rparr>, edge_asteroid]"
    by simp_all
  have n: "length children = 3" using f(6) e(1) by (simp add: demo_asteroid_def)
  have "drop 3 (asteroids (asteroid_hit 3 twin_game)) = [edge_asteroid\<lparr>handle := 8\<rparr>, edge_asteroid]"
    "length (asteroids (asteroid_hit 3 twin_game)) = 5"
    using f(5) e(2) n by simp_all
  with a u f show ?thesis by blast
qed

lemma init_one_props:
  "\<exists>c. asteroids (init_one st) = c # asteroids st \<and> osize c = 3"
  "bullets (init_one st) = bullets st"
  "ship (init_one st) = ship st"
  by (simp_all add: init_one_def getRandStartPosVal_def rand_def createAsteroid_result
        Let_def split_beta)

lemma init_loop_props:
  "(\<exists>cs. asteroids ((init_one ^^ n) st) = cs @ asteroids st \<and> length cs = n
         \<and> (\<forall>c \<in> set cs. osize c = 3))
   \<and> bullets ((init_one ^^ n) st) = bullets st
   \<and> ship ((init_one ^^ n) st) = ship st"
proof (induction n)
  case 0
  show ?case by simp
next
  case (Suc n)
  then obtain cs where cs: "asteroids ((init_one ^^ n) st) = cs @ asteroids st" "length cs = n"
      "\<forall>c \<in> set cs. osize c = 3"
    by blast
  obtain c where c: "asteroids (init_one ((init_one ^^ n) st)) = c # asteroids ((init_one ^^ n) st)"
      "osize c = 3"
    using init_one_props(1) by blast
  have "asteroids ((init_one ^^ Suc n) st) = (c # cs) @ asteroids st
      \<and> length (c # cs) = Suc n \<and> (\<forall>d \<in> set (c # cs). osize d = 3)"
    using c cs by simp
  then have "\<exists>cs. asteroids ((init_one ^^ Suc n) st) = cs @ asteroids st \<and> length cs = Suc n
         \<and> (\<forall>c \<in> set cs. osize c = 3)"
    by blast
  then show ?case using Suc by (simp add: init_one_props)
qed

lemma init_fresh:
  "bullets (init seq st) = []
   \<and> length (asteroids (init seq st)) = INITIAL_ASTEROIDS
   \<and> (\<forall>a \<in> set (asteroids (init seq st)). osize a = 3)
   \<and> pos (ship (init seq st)) = \<lparr>x = 400, y = 300\<rparr>
   \<and> vel (ship (init seq st)) = \<lparr>x = 0, y = 0\<rparr>
   \<and> accel (ship (init seq st)) = 0 \<and> angle (ship (init seq st)) = 0
   \<and> a_vel (ship (init seq st)) = 0"
proof -
  define st0 where "st0 = st\<lparr>bullets := [], asteroids := []\<rparr>"
  define bg where "bg = xSpriteCreate ''stars.png'' (real_of_int (drop_bit 1 SCREEN_W))
      (real_of_int (drop_bit 1 SCREEN_H)) 0 (nat SCREEN_W) (nat SCREEN_H) 0 st0"
  define st2 where "st2 = (snd bg)\<lparr>background := fst bg, rand_seq := seq, rand_idx := 0\<rparr>"
  define g where "g = xGroupCreate st2"
  define st3 where "st3 = (snd g)\<lparr>astGroup := fst g\<rparr>"
  have e: "bullets st3 = []" "asteroids st3 = []"
    by (simp_all add: st3_def g_def st2_def bg_def st0_def xGroupCreate_def xSpriteCreate_def)
  let ?st4 = "(init_one ^^ INITIAL_ASTEROIDS) st3"
  from init_loop_props [of INITIAL_ASTEROIDS st3] e obtain cs where
    l: "asteroids ?st4 = cs" "length cs = INITIAL_ASTEROIDS" "\<forall>c \<in> set cs. osize c = 3"
       "bullets ?st4 = []"
    by auto
  have i: "init seq st =
     (snd (xSpriteCreate ''ship.png'' (real_of_int (drop_bit 1 SCREEN_W))
                       (real_of_int (drop_bit 1 SCREEN_H)) 0 SHIP_SIZE SHIP_SIZE 1 ?st4))
       \<lparr>ship := (ship (snd (xSpriteCreate ''ship.png'' (real_of_int (drop_bit 1 SCREEN_W))
                       (real_of_int (drop_bit 1 SCREEN_H)) 0 SHIP_SIZE SHIP_SIZE 1 ?st4)))
          \<lparr>handle := fst (xSpriteCreate ''ship.png'' (real_of_int (drop_bit 1 SCREEN_W))
                       (real_of_int (drop_bit 1 SCREEN_H)) 0 SHIP_SIZE SHIP_SIZE 1 ?st4),
                 pos := \<lparr>x = real_of_int (drop_bit 1 SCREEN_W),
                         y = real_of_int (drop_bit 1 SCREEN_H)\<rparr>,
                 vel := \<lparr>x = 0, y = 0\<rparr>, accel := 0, angle := 0, a_vel := 0\<rparr>\<rparr>"
    by (simp add: init_def st3_def g_def st2_def bg_def st0_def Let_def split_beta)
  have half: "drop_bit (Suc 0) SCREEN_W = 400" "drop_bit (Suc 0) SCREEN_H = 300"
    by (simp_all add: SCREEN_W_def SCREEN_H_def drop_bit_eq_div)
  show ?thesis
    using l by (simp add: i xSpriteCreate_def half)
qed

lemma half_screen:
  "drop_bit (Suc 0) SCREEN_W = 400" "drop_bit (Suc 0) SCREEN_H = 300"
  by (simp_all add: SCREEN_W_def SCREEN_H_def drop_bit_eq_div)

lemma reset_calls:
  "calls (reset st) = calls st
          @ map (\<lambda>ob. SpriteDelete (handle ob)) (asteroids st)
          @ [GroupDelete (astGroup st)]
          @ map (\<lambda>ob. SpriteDelete (handle ob)) (bullets st)
          @ [SpriteDelete (handle (ship st)), SpriteDelete (background st)]"
  by (simp add: reset_def)

lemma init_one_calls: "\<exists>cs. calls (init_one st) = calls st @ cs"
  by (simp add: init_one_def getRandStartPosVal_def rand_def createAsteroid_result
        Let_def split_beta)

lemma init_loop_calls: "\<exists>cs. calls ((init_one ^^ n) st) = calls st @ cs"
proof (induction n)
  case 0
  show ?case by simp
next
  case (Suc n)
  then obtain cs where "calls ((init_one ^^ n) st) = calls st @ cs" by blast
  moreover obtain ds where
    "calls (init_one ((init_one ^^ n) st)) = calls ((init_one ^^ n) st) @ ds"
    using init_one_calls by blast
  ultimately have "calls ((init_one ^^ Suc n) st) = calls st @ (cs @ ds)" by simp
  then show ?case by blast
qed

lemma init_calls: "\<exists>cs. calls (init seq st) = calls st @ cs"
proof -
  define st0 where "st0 = st\<lparr>bullets := [], asteroids := []\<rparr>"
  define bg where "bg = xSpriteCreate ''stars.png'' (real_of_int (drop_bit 1 SCREEN_W))
      (real_of_int (drop_bit 1 SCREEN_H)) 0 (nat SCREEN_W) (nat SCREEN_H) 0 st0"
  define st2 where "st2 = (snd bg)\<lparr>background := fst bg, rand_seq := seq, rand_idx := 0\<rparr>"
  define g where "g = xGroupCreate st2"
  define st3 where "st3 = (snd g)\<lparr>astGroup := fst g\<rparr>"
  have "\<exists>cs. calls st3 = calls st @ cs"
    by (simp add: st3_def g_def st2_def bg_def st0_def xGroupCreate_def xSpriteCreate_def)
  then obtain cs where cs: "calls st3 = calls st @ cs" by blast
  obtain ds where ds: "calls ((init_one ^^ INITIAL_ASTEROIDS) st3) = calls st3 @ ds"
    using init_loop_calls by blast
  have "calls (init seq st) = calls ((init_one ^^ INITIAL_ASTEROIDS) st3)
      @ [SpriteCreate ''ship.png'' (real_of_int (drop_bit 1 SCREEN_W))
           (real_of_int (drop_bit 1 SCREEN_H)) 0 SHIP_SIZE SHIP_SIZE 1
           (next_handle ((init_one ^^ INITIAL_ASTEROIDS) st3))]"
    by (simp add: init_def st3_def g_def st2_def bg_def st0_def Let_def split_beta
          xSpriteCreate_def)
  then show ?thesis using cs ds by simp
qed

text \<open>
  Claim C4. When \<^verbatim>\<open>uCollide\<close> reports the ship as colliding with an asteroid of
  the list, however many asteroids the list holds, the end-of-pass test
  suspends the three tasks, shows \<^verbatim>\<open>lose.png\<close> in the middle of the screen, waits
  3000 ms, deletes that sprite, deletes every sprite and the group (\<^verbatim>\<open>reset\<close>),
  and starts a new game (\<^verbatim>\<open>init\<close>): no bullets, \<^verbatim>\<open>INITIAL_ASTEROIDS\<close> asteroids
  of size 3, the ship at rest in the middle of the screen; then it resumes the
  three tasks.
\<close>

theorem ship_collision_loses:
  assumes "coll (calls st) (handle (ship st)) (astGroup st) = Some hit"
    and "\<exists>a \<in> set (asteroids st). handle a = hit"
  shows "(\<exists>cs. calls (game_over tick_ms coll seq st)
        = calls st
          @ [TaskSuspend UpdateTask, TaskSuspend BulletTask, TaskSuspend InputTask,
             SpriteCreate ''lose.png'' 400 300 0 400 300 100 (next_handle st),
             TaskDelay (3000 div tick_ms), SpriteDelete (next_handle st)]
          @ map (\<lambda>ob. SpriteDelete (handle ob)) (asteroids st)
          @ [GroupDelete (astGroup st)]
          @ map (\<lambda>ob. SpriteDelete (handle ob)) (bullets st)
          @ [SpriteDelete (handle (ship st)), SpriteDelete (background st)]
          @ cs
          @ [TaskResume UpdateTask, TaskResume BulletTask, TaskResume InputTask])
      \<and> bullets (game_over tick_ms coll seq st) = []
      \<and> length (asteroids (game_over tick_ms coll seq st)) = INITIAL_ASTEROIDS
      \<and> (\<forall>a \<in> set (asteroids (game_over tick_ms coll seq st)). osize a = 3)
      \<and> pos (ship (game_over tick_ms coll seq st)) = \<lparr>x = 400, y = 300\<rparr>
      \<and> vel (ship (game_over tick_ms coll seq st)) = \<lparr>x = 0, y = 0\<rparr>"
proof -
  have ne: "asteroids st \<noteq> []" using assms(2) by auto
  define st3 where "st3 = st\<lparr>next_handle := next_handle st + 1,
      calls := calls st
          @ [TaskSuspend UpdateTask, TaskSuspend BulletTask, TaskSuspend InputTask,
             SpriteCreate ''lose.png'' 400 300 0 400 300 100 (next_handle st),
             TaskDelay (3000 div tick_ms), SpriteDelete (next_handle st)]\<rparr>"
  have g: "game_over tick_ms coll seq st
      = record_calls [TaskResume UpdateTask, TaskResume BulletTask, TaskResume InputTask]
          (init seq (reset st3))"
    using assms(1) ne
    by (simp add: game_over_def record_calls_def xSpriteCreate_def Let_def half_screen st3_def)
  obtain cs where cs: "calls (init seq (reset st3)) = calls (reset st3) @ cs"
    using init_calls by blast
  have "calls (game_over tick_ms coll seq st)
        = calls st
          @ [TaskSuspend UpdateTask, TaskSuspend BulletTask, TaskSuspend InputTask,
             SpriteCreate ''lose.png'' 400 300 0 400 300 100 (next_handle st),
             TaskDelay (3000 div tick_ms), SpriteDelete (next_handle st)]
          @ map (\<lambda>ob. SpriteDelete (handle ob)) (asteroids st)
          @ [GroupDelete (astGroup st)]
          @ map (\<lambda>ob. SpriteDelete (handle ob)) (bullets st)
          @ [SpriteDelete (handle (ship st)), SpriteDelete (background st)]
          @ cs
          @ [TaskResume UpdateTask, TaskResume BulletTask, TaskResume InputTask]"
    by (simp add: g record_calls_def cs reset_calls) (simp add: st3_def)
  then show ?thesis
    using init_fresh [of seq "reset st3"] by (simp add: g record_calls_def)
qed

theorem ship_collision_loses_witness:
  "demo_ship_coll (calls demo_game) (handle (ship demo_game)) (astGroup demo_game) = Some 3
   \<and> (\<exists>a \<in> set (asteroids demo_game). handle a = 3)
   \<and> (\<exists>cs. calls (game_over 1 demo_ship_coll demo_seq demo_game)
        = [TaskSuspend UpdateTask, TaskSuspend BulletTask, TaskSuspend InputTask,
           SpriteCreate ''lose.png'' 400 300 0 400 300 100 5,
           TaskDelay 3000, SpriteDelete 5, SpriteDelete 3, GroupDelete 2, SpriteDelete 4,
           SpriteDelete 1, SpriteDelete 0]
          @ cs
          @ [TaskResume UpdateTask, TaskResume BulletTask, TaskResume InputTask])
   \<and> bullets (game_over 1 demo_ship_coll demo_seq demo_game) = []
   \<and> length (asteroids (game_over 1 demo_ship_coll demo_seq demo_game)) = 5"
proof -
  have a: "demo_ship_coll (calls demo_game) (handle (ship demo_game)) (astGroup demo_game)
             = Some 3"
    by (simp add: demo_ship_coll_def demo_game_def demo_ship_def)
  have b: "\<exists>a \<in> set (asteroids demo_game). handle a = 3"
    by (simp add: demo_game_def demo_asteroid_def)
  show ?thesis
    using a b ship_collision_loses [where st = demo_game and coll = demo_ship_coll and hit = 3
        and tick_ms = 1 and seq = demo_seq, OF a b]
    by (simp add: demo_game_def demo_asteroid_def demo_bullet_def demo_ship_def
          INITIAL_ASTEROIDS_def)
qed

text \<open>
  With an empty asteroid list the sprite shown is \<^verbatim>\<open>win.png\<close>, whatever \<^verbatim>\<open>uCollide\<close>
  reports for the ship: the test of the list comes first.
\<close>

lemma empty_list_wins:
  assumes "asteroids st = []"
  shows "\<exists>cs. calls (game_over tick_ms coll seq st)
        = calls st
          @ [TaskSuspend UpdateTask, TaskSuspend BulletTask, TaskSuspend InputTask,
             SpriteCreate ''win.png'' 400 300 20 400 300 100 (next_handle st)]
          @ cs"
proof -
  define st3 where "st3 = st\<lparr>next_handle := next_handle st + 1,
      calls := calls st
          @ [TaskSuspend UpdateTask, TaskSuspend BulletTask, TaskSuspend InputTask,
             SpriteCreate ''win.png'' 400 300 20 400 300 100 (next_handle st),
             TaskDelay (3000 div tick_ms), SpriteDelete (next_handle st)]\<rparr>"
  have g: "game_over tick_ms coll seq st
      = record_calls [TaskResume UpdateTask, TaskResume BulletTask, TaskResume InputTask]
          (init seq (reset st3))"
    using assms
    by (simp add: game_over_def record_calls_def xSpriteCreate_def Let_def half_screen st3_def)
  obtain cs where cs: "calls (init seq (reset st3)) = calls (reset st3) @ cs"
    using init_calls by blast
  show ?thesis
    by (simp add: g record_calls_def cs reset_calls) (simp add: st3_def)
qed

section \<open>The bullet spawner\<close>












end
